theory Spec2Isabelle
  imports Complex_Main "HOL-Library.Word"
begin

section \<open>Values, errors and the library primitives the module calls\<close>

text \<open>
  The module \<open>easyfsl/utils.py\<close> is glue over numpy, torch and pandas. The embedding
  below keeps the module's own control flow and writes out, as small HOL functions, what
  the library calls it makes do on the shapes that reach them.

  Numbers: a float64 is modelled as an exact rational, with \<open>NaN\<close> kept as a value of its
  own (numpy's mean of an empty array is \<open>nan\<close>, with a warning and no exception).
  Rounding is not modelled. The entries of an int64 array are 64-bit words, whose
  arithmetic wraps around; \<open>sint\<close> reads their value.
\<close>

datatype py_error =
    ValueError string
  | ZeroDivisionError
  | RuntimeError string
  | IndexError string
  | TypeError string

datatype npfloat = NaN | Num rat

text \<open>\<open>np.mean\<close> / \<open>ndarray.mean()\<close> of a one-dimensional array.\<close>

definition np_mean :: "rat list \<Rightarrow> npfloat" where
  "np_mean xs = (if xs = [] then NaN else Num (sum_list xs / of_nat (length xs)))"

text \<open>
  The Python slice \<open>xs[start:]\<close>: a negative start counts from the end and is clamped
  at 0, a start beyond the end is clamped at the length.
\<close>

definition py_slice_from :: "int \<Rightarrow> 'a list \<Rightarrow> 'a list" where
  "py_slice_from start xs =
     (let n = int (length xs);
          s = (if start < 0 then max (start + n) 0 else min start n)
      in drop (nat s) xs)"

text \<open>
  Elementwise arithmetic and comparison of two one-dimensional arrays, with numpy's and
  torch's broadcasting: equal lengths pair up, an array of length 1 is stretched, any
  other pair of lengths is refused.
\<close>

definition broadcast2 ::
  "('a \<Rightarrow> 'a \<Rightarrow> 'b) \<Rightarrow> py_error \<Rightarrow> 'a list \<Rightarrow> 'a list \<Rightarrow> py_error + 'b list" where
  "broadcast2 f err a b =
     (if length a = length b then Inr (map2 f a b)
      else if length a = 1 then Inr (map (\<lambda>y. f (hd a) y) b)
      else if length b = 1 then Inr (map (\<lambda>x. f x (hd b)) a)
      else Inl err)"

text \<open>
  An argument of the error metrics: a Python list or a numpy array, in both cases of
  integers that fit int64, given as 64-bit words (\<open>evaluate\<close> passes int64 arrays).
  Python's \<open>-\<close> is not defined between two lists; when one operand is an array, numpy
  converts the other and subtracts elementwise in int64, wrapping around.
\<close>

datatype seq_arg = PyList "64 word list" | NdArray "64 word list"

fun elements :: "seq_arg \<Rightarrow> 64 word list" where
  "elements (PyList xs) = xs"
| "elements (NdArray xs) = xs"

fun np_sub :: "seq_arg \<Rightarrow> seq_arg \<Rightarrow> py_error + 64 word list" where
  "np_sub (PyList a) (PyList b) =
     Inl (TypeError ''unsupported operand type(s) for -: list and list'')"
| "np_sub a b =
     broadcast2 (\<lambda>x y. x - y) (ValueError ''operands could not be broadcast together'')
       (elements a) (elements b)"

text \<open>
  \<open>d ** 2\<close> and \<open>np.abs(d)\<close> on an int64 array stay in int64: the square wraps around,
  and the absolute value of the least int64 is itself. \<open>np.mean\<close> of an int64 array
  adds its entries up as float64 values.
\<close>

definition np_square :: "64 word \<Rightarrow> 64 word" where
  "np_square d = d * d"

definition np_abs :: "64 word \<Rightarrow> 64 word" where
  "np_abs d = (if sint d < 0 then - d else d)"

definition float_of_int64 :: "64 word \<Rightarrow> rat" where
  "float_of_int64 x = of_int (sint x)"

definition torch_eq :: "int list \<Rightarrow> int list \<Rightarrow> py_error + bool list" where
  "torch_eq = broadcast2 (\<lambda>x y. x = y)
     (RuntimeError ''The size of tensor a must match the size of tensor b'')"

text \<open>
  A two-dimensional tensor: its number of columns (known also when it has no row) and its
  rows.
\<close>

record tensor2d =
  ncols :: nat
  trows :: "rat list list"

definition score_shape :: "tensor2d \<Rightarrow> nat \<Rightarrow> nat \<Rightarrow> bool" where
  "score_shape M n c =
     (ncols M = c \<and> length (trows M) = n \<and> list_all (\<lambda>r. length r = c) (trows M))"

text \<open>
  \<open>torch.max(t, 1)[1]\<close>: per row, the index of the maximum, the first one when several
  entries are maximal; a reduction over a dimension of size 0 is refused.
\<close>

definition argmax :: "rat list \<Rightarrow> nat" where
  "argmax row = length (takeWhile (\<lambda>x. x \<noteq> Max (set row)) row)"

definition torch_max_dim1_indices :: "tensor2d \<Rightarrow> py_error + int list" where
  "torch_max_dim1_indices t =
     (if ncols t = 0
      then Inl (IndexError ''max(): Expected reduction dim 1 to have non-zero size.'')
      else Inr (map (\<lambda>r. int (argmax r)) (trows t)))"

text \<open>
  \<open>torch.cat\<close> of a list of two-dimensional tensors along dimension 0: the list must
  not be empty and the tensors must agree on the number of columns.
\<close>

definition torch_cat :: "tensor2d list \<Rightarrow> py_error + tensor2d" where
  "torch_cat ts =
     (if ts = [] then Inl (RuntimeError ''torch.cat(): expected a non-empty list of Tensors'')
      else if list_all (\<lambda>t. ncols t = ncols (hd ts)) ts
      then Inr \<lparr>ncols = ncols (hd ts), trows = concat (map trows ts)\<rparr>
      else Inl (RuntimeError ''Sizes of tensors must match except in dimension 0''))"


section \<open>Metric primitives\<close>

text \<open>
  \<^verbatim>\<open>
  def sliding_average(value_list, window):
      if len(value_list) == 0:
          raise ValueError("Cannot perform sliding average on an empty list.")
      return np.asarray(value_list[-window:]).mean()
  \<close>
\<close>

definition sliding_average :: "rat list \<Rightarrow> int \<Rightarrow> py_error + npfloat" where
  "sliding_average value_list window =
     (if length value_list = 0
      then Inl (ValueError ''Cannot perform sliding average on an empty list.'')
      else Inr (np_mean (py_slice_from (- window) value_list)))"

text \<open>
  \<^verbatim>\<open>
  def mean_squared_error(y_true, y_pred):
      return np.mean((y_true - y_pred)**2)
  def mean_absolute_error(y_true, y_pred):
      return np.mean(np.abs(y_true - y_pred))
  \<close>
\<close>

definition mean_squared_error :: "seq_arg \<Rightarrow> seq_arg \<Rightarrow> py_error + npfloat" where
  "mean_squared_error y_true y_pred =
     (case np_sub y_true y_pred of
        Inl e \<Rightarrow> Inl e
      | Inr d \<Rightarrow> Inr (np_mean (map float_of_int64 (map np_square d))))"

definition mean_absolute_error :: "seq_arg \<Rightarrow> seq_arg \<Rightarrow> py_error + npfloat" where
  "mean_absolute_error y_true y_pred =
     (case np_sub y_true y_pred of
        Inl e \<Rightarrow> Inl e
      | Inr d \<Rightarrow> Inr (np_mean (map float_of_int64 (map np_abs d))))"

text \<open>What the specification calls the arithmetic mean, and the last \<open>n\<close> elements.\<close>

definition arithmetic_mean :: "rat list \<Rightarrow> rat" where
  "arithmetic_mean xs = sum_list xs / of_nat (length xs)"

definition last_elements :: "nat \<Rightarrow> 'a list \<Rightarrow> 'a list" where
  "last_elements n xs = drop (length xs - n) xs"


section \<open>Embedding predictor\<close>

text \<open>
  A Python value of the \<open>class_name\<close> column. A batch of labels arrives either as a
  tensor of integers or as a plain sequence.
\<close>

datatype pyval = PyInt int | PyStr string

datatype label_batch = TensorLabels "int list" | SeqLabels "pyval list"

record table_row =
  embedding :: "rat list"
  class_name :: pyval

text \<open>
  \<open>pd.DataFrame\<close> from a dictionary of two lists: one row per position; columns of
  different lengths are refused.
\<close>

definition DataFrame :: "rat list list \<Rightarrow> pyval list \<Rightarrow> py_error + table_row list" where
  "DataFrame embeddings class_names =
     (if length embeddings = length class_names
      then Inr (map2 (\<lambda>e c. \<lparr>embedding = e, class_name = c\<rparr>) embeddings class_names)
      else Inl (ValueError ''All arrays must be of the same length''))"

text \<open>
  \<^verbatim>\<open>
  all_embeddings = []
  all_class_names = []
  for images, class_names in dataloader:
      if device is not None:
          images = images.to(device)
      all_embeddings.append(model(images).detach().cpu())
      if isinstance(class_names, torch.Tensor):
          all_class_names += class_names.tolist()
      else:
          all_class_names += class_names
  concatenated_embeddings = torch.cat(all_embeddings)
  return pd.DataFrame(
      {"embedding": list(concatenated_embeddings), "class_name": all_class_names})
  \<close>
  The feature extractor is a function from a batch of inputs to a two-dimensional tensor.
  Moving a tensor to a device, \<open>detach\<close> and \<open>cpu\<close> do not change its values and are left
  out.
\<close>

fun class_names_list :: "label_batch \<Rightarrow> pyval list" where
  "class_names_list (TensorLabels t) = map PyInt t"
| "class_names_list (SeqLabels l) = l"

fun predict_loop ::
  "('img list \<Rightarrow> tensor2d) \<Rightarrow> ('img list \<times> label_batch) list \<Rightarrow>
   tensor2d list \<Rightarrow> pyval list \<Rightarrow> tensor2d list \<times> pyval list" where
  "predict_loop model [] all_embeddings all_class_names = (all_embeddings, all_class_names)"
| "predict_loop model ((images, class_names) # rest) all_embeddings all_class_names =
     predict_loop model rest
       (all_embeddings @ [model images])
       (all_class_names @ class_names_list class_names)"

definition predict_embeddings ::
  "('img list \<times> label_batch) list \<Rightarrow> ('img list \<Rightarrow> tensor2d) \<Rightarrow> py_error + table_row list" where
  "predict_embeddings dataloader model =
     (case predict_loop model dataloader [] [] of
        (all_embeddings, all_class_names) \<Rightarrow>
          (case torch_cat all_embeddings of
             Inl e \<Rightarrow> Inl e
           | Inr concatenated_embeddings \<Rightarrow>
               DataFrame (trows concatenated_embeddings) all_class_names))"

text \<open>
  The contract a batch satisfies for the table to exist: the extractor returns one
  \<open>d\<close>-dimensional row per input and the batch carries one label per input.
\<close>

definition batch_ok :: "('img list \<Rightarrow> tensor2d) \<Rightarrow> nat \<Rightarrow> 'img list \<times> label_batch \<Rightarrow> bool" where
  "batch_ok model d b =
     (score_shape (model (fst b)) (length (fst b)) d \<and>
      length (class_names_list (snd b)) = length (fst b))"

text \<open>The rows the specification expects of one batch: element by element, its embedding and its label.\<close>

definition batch_rows :: "('img list \<Rightarrow> tensor2d) \<Rightarrow> 'img list \<times> label_batch \<Rightarrow> table_row list" where
  "batch_rows model b =
     map2 (\<lambda>e c. \<lparr>embedding = e, class_name = c\<rparr>)
       (trows (model (fst b))) (class_names_list (snd b))"


section \<open>Single-task evaluator\<close>

text \<open>
  The few-shot classifier is an external collaborator with a mutable state \<open>'st\<close>:
  \<open>model.eval()\<close>, \<open>model.process_support_set(images, labels)\<close>, which changes the state,
  and \<open>model(query_images)\<close>, which reads it and returns the score matrix. The
  collaborator's calls are taken to return.
\<close>

record ('st, 'img) few_shot_classifier =
  model_eval :: "'st \<Rightarrow> 'st"
  process_support_set :: "'st \<Rightarrow> 'img list \<Rightarrow> int list \<Rightarrow> 'st"
  forward :: "'st \<Rightarrow> 'img list \<Rightarrow> tensor2d"

text \<open>
  \<^verbatim>\<open>
  model.process_support_set(support_images, support_labels)
  predictions = model(query_images).detach().data
  number_of_correct_predictions = int(
      (torch.max(predictions, 1)[1] == query_labels).sum().item())
  predicted_labels = torch.max(predictions, 1)[1]
  return number_of_correct_predictions, len(query_labels), predicted_labels, query_labels
  \<close>
  The result carries the classifier's state after the call next to the four returned
  components.
\<close>

definition evaluate_on_one_task ::
  "('st, 'img) few_shot_classifier \<Rightarrow> 'st \<Rightarrow> 'img list \<Rightarrow> int list \<Rightarrow> 'img list \<Rightarrow> int list \<Rightarrow>
   py_error + ((nat \<times> nat \<times> int list \<times> int list) \<times> 'st)" where
  "evaluate_on_one_task model st support_images support_labels query_images query_labels =
     (let st' = process_support_set model st support_images support_labels;
          predictions = forward model st' query_images
      in case torch_max_dim1_indices predictions of
           Inl e \<Rightarrow> Inl e
         | Inr predicted_labels \<Rightarrow>
             (case torch_eq predicted_labels query_labels of
                Inl e \<Rightarrow> Inl e
              | Inr hits \<Rightarrow>
                  Inr ((length (filter (\<lambda>h. h) hits), length query_labels,
                        predicted_labels, query_labels), st')))"


section \<open>Episodic evaluation driver\<close>

record 'img episode =
  support_images :: "'img list"
  support_labels :: "int list"
  query_images :: "'img list"
  query_labels :: "int list"
  class_ids :: "int list"

record running =
  total_predictions :: nat
  correct_predictions :: nat
  predictions_all :: "int list"
  query_labels_all :: "int list"

definition running_init :: running where
  "running_init =
     \<lparr>total_predictions = 0, correct_predictions = 0, predictions_all = [], query_labels_all = []\<rparr>"

text \<open>Python's \<open>a / b\<close> on two non-negative integers.\<close>

definition py_truediv :: "nat \<Rightarrow> nat \<Rightarrow> py_error + rat" where
  "py_truediv a b = (if b = 0 then Inl ZeroDivisionError else Inr (of_nat a / of_nat b))"

text \<open>
  The body of the loop over the episodes:
  \<^verbatim>\<open>
  correct, total, predictions_per_task, query_labels_per_task = evaluate_on_one_task(
      model, support_images.to(device), support_labels.to(device),
      query_images.to(device), query_labels.to(device))
  total_predictions += total
  correct_predictions += correct
  predictions_all.extend(predictions_per_task.detach().cpu().numpy())
  query_labels_all.extend(query_labels_per_task.cpu().numpy())
  tqdm_eval.set_postfix(accuracy=correct_predictions / total_predictions)
  \<close>
  The argument of \<open>set_postfix\<close> is evaluated in every iteration, whether or not the
  progress bar is displayed, so the division is a step of the loop. The prints are left out; \<open>task_correct\<close> and \<open>task_total\<close> are the source's \<open>correct\<close> and \<open>total\<close>.
\<close>

fun evaluate_loop ::
  "('st, 'img) few_shot_classifier \<Rightarrow> 'st \<Rightarrow> running \<Rightarrow> 'img episode list \<Rightarrow>
   py_error + ('st \<times> running)" where
  "evaluate_loop model st agg [] = Inr (st, agg)"
| "evaluate_loop model st agg (ep # rest) =
     (case evaluate_on_one_task model st
             (support_images ep) (support_labels ep) (query_images ep) (query_labels ep) of
        Inl e \<Rightarrow> Inl e
      | Inr ((task_correct, task_total, predictions_per_task, query_labels_per_task), st') \<Rightarrow>
          (let agg' = \<lparr>total_predictions = total_predictions agg + task_total,
                       correct_predictions = correct_predictions agg + task_correct,
                       predictions_all = predictions_all agg @ predictions_per_task,
                       query_labels_all = query_labels_all agg @ query_labels_per_task\<rparr>
           in case py_truediv (correct_predictions agg') (total_predictions agg') of
                Inl e \<Rightarrow> Inl e
              | Inr running_accuracy \<Rightarrow> evaluate_loop model st' agg' rest))"

text \<open>
  After the loop:
  \<^verbatim>\<open>
  query_labels_all = np.array(query_labels_all)
  predictions_all = np.array(predictions_all)
  f1 = f1_score(query_labels_all, predictions_all, average=None)
  mse = mean_squared_error(query_labels_all, predictions_all)
  mae = mean_absolute_error(query_labels_all, predictions_all)
  return correct_predictions / total_predictions
  \<close>
  The values of \<open>f1\<close>, \<open>mse\<close> and \<open>mae\<close> are only printed, but each call runs, and can
  raise, before the final division. The result carries the classifier's final state next
  to the accuracy.

  \<open>f1_score\<close> is scikit-learn's. With \<open>average=None\<close> it returns one score per label
  that occurs, in increasing order of the labels: twice the number of positions where
  truth and prediction are both the label, over the number of occurrences of the label
  in the two arrays. It refuses arrays of different lengths. On two empty arrays its
  behaviour depends on the installed release: recent ones refuse them with a
  \<open>ValueError\<close>, older ones return an empty array of scores.
\<close>

datatype scikit_learn = EmptyAccepted | EmptyRefused

definition class_f1 :: "int list \<Rightarrow> int list \<Rightarrow> int \<Rightarrow> rat" where
  "class_f1 y_true y_pred c =
     (let tp = length (filter (\<lambda>(t, p). t = c \<and> p = c) (zip y_true y_pred));
          n_true = length (filter (\<lambda>t. t = c) y_true);
          n_pred = length (filter (\<lambda>p. p = c) y_pred)
      in if n_true + n_pred = 0 then 0 else of_nat (2 * tp) / of_nat (n_true + n_pred))"

definition f1_score :: "scikit_learn \<Rightarrow> int list \<Rightarrow> int list \<Rightarrow> py_error + rat list" where
  "f1_score sklearn y_true y_pred =
     (if length y_true \<noteq> length y_pred
      then Inl (ValueError ''Found input variables with inconsistent numbers of samples'')
      else if y_true = [] \<and> sklearn = EmptyRefused
      then Inl (ValueError ''Found empty input array while a minimum of 1 sample is required'')
      else Inr (map (class_f1 y_true y_pred) (sort (remdups (y_true @ y_pred)))))"

text \<open>
  The labels and predictions are int64 values, held as integers in the running lists;
  \<open>np.array\<close> makes them the int64 arrays the error metrics receive.
\<close>

definition np_array :: "int list \<Rightarrow> seq_arg" where
  "np_array xs = NdArray (map word_of_int xs)"

definition evaluate ::
  "scikit_learn \<Rightarrow> ('st, 'img) few_shot_classifier \<Rightarrow> 'st \<Rightarrow> 'img episode list \<Rightarrow>
   py_error + (rat \<times> 'st)" where
  "evaluate sklearn model st data_loader =
     (case evaluate_loop model (model_eval model st) running_init data_loader of
        Inl e \<Rightarrow> Inl e
      | Inr (st', agg) \<Rightarrow>
          (case f1_score sklearn (query_labels_all agg) (predictions_all agg) of
             Inl e \<Rightarrow> Inl e
           | Inr f1 \<Rightarrow>
               (case mean_squared_error (np_array (query_labels_all agg))
                       (np_array (predictions_all agg)) of
                  Inl e \<Rightarrow> Inl e
                | Inr mse \<Rightarrow>
                    (case mean_absolute_error (np_array (query_labels_all agg))
                            (np_array (predictions_all agg)) of
                       Inl e \<Rightarrow> Inl e
                     | Inr mae \<Rightarrow>
                         (case py_truediv (correct_predictions agg) (total_predictions agg) of
                            Inl e \<Rightarrow> Inl e
                          | Inr accuracy \<Rightarrow> Inr (accuracy, st'))))))"

text \<open>
  The shape contract of the classifier on an episode (section 3 of the specification):
  from any state, the score matrix has one row per query label and \<open>c > 0\<close> columns.
\<close>

definition episode_ok :: "('st, 'img) few_shot_classifier \<Rightarrow> 'img episode \<Rightarrow> bool" where
  "episode_ok model ep =
     (\<forall>st. \<exists>c > 0.
        score_shape
          (forward model (process_support_set model st (support_images ep) (support_labels ep))
             (query_images ep))
          (length (query_labels ep)) c)"

text \<open>
  The per-episode results the specification sums: the single-task evaluator run on each
  episode in order, the classifier's state threaded through.
\<close>

fun task_results ::
  "('st, 'img) few_shot_classifier \<Rightarrow> 'st \<Rightarrow> 'img episode list \<Rightarrow>
   py_error + ((nat \<times> nat \<times> int list \<times> int list) list \<times> 'st)" where
  "task_results model st [] = Inr ([], st)"
| "task_results model st (ep # rest) =
     (case evaluate_on_one_task model st
             (support_images ep) (support_labels ep) (query_images ep) (query_labels ep) of
        Inl e \<Rightarrow> Inl e
      | Inr (r, st') \<Rightarrow>
          (case task_results model st' rest of
             Inl e \<Rightarrow> Inl e
           | Inr (rs, st'') \<Rightarrow> Inr (r # rs, st'')))"

definition correct_of :: "nat \<times> nat \<times> int list \<times> int list \<Rightarrow> nat" where
  "correct_of r = fst r"

definition total_of :: "nat \<times> nat \<times> int list \<times> int list \<Rightarrow> nat" where
  "total_of r = fst (snd r)"

text \<open>The running aggregate after the results \<open>rs\<close> of a run of episodes have been added to it.\<close>

definition accumulate :: "running \<Rightarrow> (nat \<times> nat \<times> int list \<times> int list) list \<Rightarrow> running" where
  "accumulate agg rs =
     \<lparr>total_predictions = total_predictions agg + sum_list (map total_of rs),
      correct_predictions = correct_predictions agg + sum_list (map correct_of rs),
      predictions_all = predictions_all agg @ concat (map (\<lambda>r. fst (snd (snd r))) rs),
      query_labels_all = query_labels_all agg @ concat (map (\<lambda>r. snd (snd (snd r))) rs)\<rparr>"

text \<open>
  A classifier whose per-episode correct count is at most the episode's query count,
  whatever state it is called in.
\<close>

definition counts_bounded :: "('st, 'img) few_shot_classifier \<Rightarrow> 'img episode list \<Rightarrow> bool" where
  "counts_bounded model eps =
     (\<forall>ep \<in> set eps. \<forall>st r st'.
        evaluate_on_one_task model st
          (support_images ep) (support_labels ep) (query_images ep) (query_labels ep) = Inr (r, st')
        \<longrightarrow> correct_of r \<le> total_of r)"


section \<open>Concrete inputs\<close>

text \<open>
  A classifier over one-dimensional inputs with two classes, scoring an input \<open>x\<close> as
  \<open>[-x, x]\<close> (class 1 for a positive input, class 0 otherwise); its state counts the
  support inputs it has processed. Two episodes: one with two queries, predicted \<open>[0, 1]\<close>
  against the true labels \<open>[0, 0]\<close>, and one with an empty query set.
\<close>

definition sign_classifier :: "(nat, rat) few_shot_classifier" where
  "sign_classifier =
     \<lparr>model_eval = (\<lambda>st. st),
      process_support_set = (\<lambda>st images labels. st + length images),
      forward = (\<lambda>st images. \<lparr>ncols = 2, trows = map (\<lambda>x. [- x, x]) images\<rparr>)\<rparr>"

definition episode_two :: "rat episode" where
  "episode_two =
     \<lparr>support_images = [- 2, 3], support_labels = [0, 1],
      query_images = [- 1, 1], query_labels = [0, 0], class_ids = [0, 1]\<rparr>"

definition episode_no_query :: "rat episode" where
  "episode_no_query =
     \<lparr>support_images = [- 2, 3], support_labels = [0, 1],
      query_images = [], query_labels = [], class_ids = [0, 1]\<rparr>"

text \<open>
  A 4-dimensional feature extractor and a data source of three batches of sizes 2, 3 and
  1, the labels of the first and third as tensors, of the second as a plain sequence.
\<close>

definition linear_extractor :: "rat list \<Rightarrow> tensor2d" where
  "linear_extractor images = \<lparr>ncols = 4, trows = map (\<lambda>x. [x, 2 * x, 0, 1]) images\<rparr>"

definition three_batches :: "(rat list \<times> label_batch) list" where
  "three_batches =
     [([1, 2], TensorLabels [0, 1]),
      ([3, 4, 5], SeqLabels [PyStr ''cat'', PyStr ''dog'', PyStr ''cat'']),
      ([6], TensorLabels [2])]"


section \<open>Properties of the sliding average\<close>

lemma py_slice_from_last:
  "0 < w \<Longrightarrow> w \<le> int (length xs) \<Longrightarrow> py_slice_from (- w) xs = last_elements (nat w) xs"
  by (simp add: py_slice_from_def last_elements_def Let_def nat_diff_distrib' max_def)

lemma py_slice_from_all:
  "w = 0 \<or> int (length xs) < w \<Longrightarrow> py_slice_from (- w) xs = xs"
  by (auto simp add: py_slice_from_def Let_def max_def min_def)

lemma py_slice_from_drop:
  "w < 0 \<Longrightarrow> py_slice_from (- w) xs = drop (nat (- w)) xs"
  by (auto simp add: py_slice_from_def Let_def min_def)

text \<open>
  Claim C3. For a non-empty list \<open>v\<close>: a window \<open>w\<close> with \<open>0 < w \<le> len(v)\<close> gives the
  arithmetic mean of the last \<open>w\<close> elements of \<open>v\<close>, and a window that is 0 or exceeds
  \<open>len(v)\<close> gives the mean of all elements of \<open>v\<close>. (At \<open>w = 0\<close> the claim's second clause,
  all elements, is the one that applies.)
\<close>

theorem sliding_average_window:
  assumes "v \<noteq> []"
  shows "(0 < w \<and> w \<le> int (length v) \<longrightarrow>
            sliding_average v w = Inr (Num (arithmetic_mean (last_elements (nat w) v))))
       \<and> (w = 0 \<or> int (length v) < w \<longrightarrow>
            sliding_average v w = Inr (Num (arithmetic_mean v)))"
proof (intro conjI impI)
  assume w: "0 < w \<and> w \<le> int (length v)"
  then have "last_elements (nat w) v \<noteq> []"
    using assms by (auto simp add: last_elements_def)
  with w assms show "sliding_average v w = Inr (Num (arithmetic_mean (last_elements (nat w) v)))"
    by (simp add: sliding_average_def py_slice_from_last np_mean_def arithmetic_mean_def)
next
  assume "w = 0 \<or> int (length v) < w"
  then have "py_slice_from (- w) v = v" by (rule py_slice_from_all)
  with assms show "sliding_average v w = Inr (Num (arithmetic_mean v))"
    by (simp add: sliding_average_def np_mean_def arithmetic_mean_def)
qed

theorem sliding_average_window_witness:
  "[1, 2, 3, 6] \<noteq> ([] :: rat list)
   \<and> sliding_average [1, 2, 3, 6] 2 = Inr (Num (9 / 2))
   \<and> sliding_average [1, 2, 3, 6] 4 = Inr (Num 3)
   \<and> sliding_average [1, 2, 3, 6] 0 = Inr (Num 3)
   \<and> sliding_average [1, 2, 3, 6] 7 = Inr (Num 3)"
  using sliding_average_window [of "[1, 2, 3, 6]" 2]
    sliding_average_window [of "[1, 2, 3, 6]" 4]
    sliding_average_window [of "[1, 2, 3, 6]" 0]
    sliding_average_window [of "[1, 2, 3, 6]" 7]
  by (simp add: arithmetic_mean_def last_elements_def)

text \<open>
  Claim C4. On the empty list, whatever the window, \<open>sliding_average\<close> raises the
  \<open>ValueError\<close> of its guard. The guard comes first: the result is the error, not the
  \<open>nan\<close> that averaging the (empty) slice would have produced.
\<close>

theorem sliding_average_empty:
  "sliding_average [] w = Inl (ValueError ''Cannot perform sliding average on an empty list.'')
   \<and> np_mean (py_slice_from (- w) []) = NaN"
  by (simp add: sliding_average_def np_mean_def py_slice_from_def Let_def)

theorem sliding_average_empty_witness:
  "sliding_average [] 3 = Inl (ValueError ''Cannot perform sliding average on an empty list.'')
   \<and> sliding_average [] 0 = Inl (ValueError ''Cannot perform sliding average on an empty list.'')
   \<and> sliding_average [] (- 2) = Inl (ValueError ''Cannot perform sliding average on an empty list.'')"
  using sliding_average_empty [of 3] sliding_average_empty [of 0] sliding_average_empty [of "- 2"]
  by simp

text \<open>
  Claim C10. For a non-empty list \<open>v\<close> and a negative window \<open>w\<close>, \<open>sliding_average\<close>
  returns (it does not raise) the numpy mean of \<open>v\<close> without its first \<open>|w|\<close> elements:
  the arithmetic mean of the elements from index \<open>|w|\<close> on when \<open>|w| < len(v)\<close>, and
  \<open>nan\<close>, the mean of an empty slice, when \<open>|w| \<ge> len(v)\<close>.
\<close>

theorem sliding_average_negative_window:
  assumes "v \<noteq> []" and "w < 0"
  shows "sliding_average v w = Inr (np_mean (drop (nat (- w)) v))
       \<and> (nat (- w) < length v \<longrightarrow>
            sliding_average v w = Inr (Num (arithmetic_mean (drop (nat (- w)) v))))
       \<and> (length v \<le> nat (- w) \<longrightarrow> sliding_average v w = Inr NaN)"
  using assms
  by (simp add: sliding_average_def py_slice_from_drop np_mean_def arithmetic_mean_def)

theorem sliding_average_negative_window_witness:
  "[1, 2, 3, 6] \<noteq> ([] :: rat list) \<and> (- 1 :: int) < 0 \<and> (- 4 :: int) < 0
   \<and> sliding_average [1, 2, 3, 6] (- 1) = Inr (Num (11 / 3))
   \<and> sliding_average [1, 2, 3, 6] (- 1) \<noteq> Inr (Num 6)
   \<and> sliding_average [1, 2, 3, 6] (- 4) = Inr NaN"
  using sliding_average_negative_window [of "[1, 2, 3, 6]" "- 1"]
    sliding_average_negative_window [of "[1, 2, 3, 6]" "- 4"]
  by (simp add: arithmetic_mean_def np_mean_def)


section \<open>Properties of the error metrics\<close>













section \<open>Properties of the single-task evaluator\<close>

lemma argmax_max:
  assumes "row \<noteq> []"
  shows "argmax row < length row \<and> row ! argmax row = Max (set row)
         \<and> (\<forall>j < argmax row. row ! j < row ! argmax row)"
proof -
  let ?P = "\<lambda>x. x \<noteq> Max (set row)"
  have "Max (set row) \<in> set row" using assms by (intro Max_in) auto
  then have "takeWhile ?P row \<noteq> row"
    by (auto simp add: takeWhile_eq_all_conv)
  then have less: "argmax row < length row"
    unfolding argmax_def
    by (metis length_takeWhile_le le_neq_implies_less takeWhile_eq_take take_all_iff order_refl)
  then have at: "row ! argmax row = Max (set row)"
    unfolding argmax_def using nth_length_takeWhile [of ?P row] by simp
  have "row ! j < row ! argmax row" if "j < argmax row" for j
  proof -
    have "j < length (takeWhile ?P row)" using that by (simp add: argmax_def)
    then have "takeWhile ?P row ! j \<in> set (takeWhile ?P row)" by simp
    then have "?P (takeWhile ?P row ! j)" by (rule set_takeWhileD [THEN conjunct2])
    moreover have "takeWhile ?P row ! j = row ! j"
      using \<open>j < length (takeWhile ?P row)\<close> by (rule takeWhile_nth)
    moreover have "row ! j \<le> Max (set row)"
      using that less by (intro Max_ge) auto
    ultimately show ?thesis using at by simp
  qed
  with less at show ?thesis by blast
qed

lemma torch_eq_same_length:
  "length a = length b \<Longrightarrow> torch_eq a b = Inr (map2 (\<lambda>x y. x = y) a b)"
  by (simp add: torch_eq_def broadcast2_def)

lemma count_hits:
  assumes "length a = length b"
  shows "length (filter (\<lambda>h. h) (map2 (\<lambda>x y. x = y) a b)) = card {i. i < length b \<and> a ! i = b ! i}"
proof -
  have "{i. i < length (map2 (\<lambda>x y. x = y) a b) \<and> (map2 (\<lambda>x y. x = y) a b) ! i}
        = {i. i < length b \<and> a ! i = b ! i}"
    using assms by auto
  then show ?thesis by (simp add: length_filter_conv_card)
qed

lemma evaluate_on_one_task_shaped:
  assumes "score_shape (forward model (process_support_set model st si sl) qi) (length ql) c"
    and "0 < c"
  shows "evaluate_on_one_task model st si sl qi ql =
           Inr ((length (filter (\<lambda>h. h)
                   (map2 (\<lambda>x y. x = y)
                      (map (\<lambda>r. int (argmax r))
                         (trows (forward model (process_support_set model st si sl) qi))) ql)),
                 length ql,
                 map (\<lambda>r. int (argmax r))
                   (trows (forward model (process_support_set model st si sl) qi)),
                 ql),
                process_support_set model st si sl)"
  using assms
  by (simp add: evaluate_on_one_task_def Let_def torch_max_dim1_indices_def score_shape_def
      torch_eq_same_length)

text \<open>
  Claim C5. For an episode with a non-empty query set, on which the classifier returns a
  score matrix with one row per query label and \<open>c > 0\<close> class columns (its contract in
  the data model), \<open>evaluate_on_one_task\<close> returns four components: the number of
  positions where the predicted label equals the true label, the length of the
  query-label sequence, the predicted labels, one per row, each the index of a maximum
  score of its row, and the query labels. The classifier is left in the state reached by
  processing the support set.
\<close>

theorem evaluate_on_one_task_result:
  assumes "ql \<noteq> []"
    and "score_shape (forward model (process_support_set model st si sl) qi) (length ql) c"
    and "0 < c"
  shows "\<exists>predicted.
           evaluate_on_one_task model st si sl qi ql =
             Inr ((card {i. i < length ql \<and> predicted ! i = ql ! i}, length ql, predicted, ql),
                  process_support_set model st si sl)
         \<and> length predicted = length ql
         \<and> (\<forall>i < length ql. \<exists>k < c.
               predicted ! i = int k
             \<and> (trows (forward model (process_support_set model st si sl) qi) ! i) ! k
                 = Max (set (trows (forward model (process_support_set model st si sl) qi) ! i)))"
proof -
  let ?M = "forward model (process_support_set model st si sl) qi"
  let ?p = "map (\<lambda>r. int (argmax r)) (trows ?M)"
  have len: "length ?p = length ql" using assms(2) by (simp add: score_shape_def)
  have rows: "length (trows ?M ! i) = c" if "i < length ql" for i
    using assms(2) that by (simp add: score_shape_def list_all_length)
  have "\<exists>k < c. ?p ! i = int k \<and> (trows ?M ! i) ! k = Max (set (trows ?M ! i))"
    if "i < length ql" for i
  proof -
    have "trows ?M ! i \<noteq> []" using rows [OF that] assms(3) by auto
    then have "argmax (trows ?M ! i) < c
        \<and> (trows ?M ! i) ! argmax (trows ?M ! i) = Max (set (trows ?M ! i))"
      using argmax_max [of "trows ?M ! i"] rows [OF that] by simp
    moreover have "?p ! i = int (argmax (trows ?M ! i))"
      using that len by simp
    ultimately show ?thesis by blast
  qed
  moreover have "evaluate_on_one_task model st si sl qi ql =
      Inr ((card {i. i < length ql \<and> ?p ! i = ql ! i}, length ql, ?p, ql),
           process_support_set model st si sl)"
    using evaluate_on_one_task_shaped [OF assms(2,3)] count_hits [OF len] by simp
  ultimately show ?thesis using len by blast
qed

lemma sign_classifier_scores:
  "forward sign_classifier st images = \<lparr>ncols = 2, trows = map (\<lambda>x. [- x, x]) images\<rparr>"
  by (simp add: sign_classifier_def)

lemma sign_classifier_shape:
  "score_shape (forward sign_classifier st images) (length images) 2"
  by (simp add: sign_classifier_scores score_shape_def list_all_iff)

lemma episode_two_task:
  "evaluate_on_one_task sign_classifier st [- 2, 3] [0, 1] [- 1, 1] [0, 0]
     = Inr ((1, 2, [0, 1], [0, 0]), st + 2)"
  by (simp add: evaluate_on_one_task_def Let_def sign_classifier_def torch_max_dim1_indices_def
      torch_eq_def broadcast2_def argmax_def)

theorem evaluate_on_one_task_result_witness:
  "[0, 0] \<noteq> ([] :: int list)
   \<and> score_shape (forward sign_classifier (process_support_set sign_classifier 0 [- 2, 3] [0, 1])
        [- 1, 1]) (length [0, 0 :: int]) 2
   \<and> (0 :: nat) < 2
   \<and> evaluate_on_one_task sign_classifier 0 [- 2, 3] [0, 1] [- 1, 1] [0, 0]
        = Inr ((1, 2, [0, 1], [0, 0]), 2)"
  using evaluate_on_one_task_result [of "[0, 0]" sign_classifier 0 "[- 2, 3]" "[0, 1]" "[- 1, 1]" 2]
    sign_classifier_shape [of "process_support_set sign_classifier 0 [- 2, 3] [0, 1]" "[- 1, 1]"]
    episode_two_task [of 0]
  by simp

text \<open>
  Claim C9. Whenever \<open>evaluate_on_one_task\<close> returns, the fourth component of its result
  is the \<open>query_labels\<close> argument it was given, unchanged.
\<close>

theorem evaluate_on_one_task_labels_unchanged:
  assumes "evaluate_on_one_task model st si sl qi ql = Inr ((n_correct, n_total, predicted, labels), st')"
  shows "labels = ql"
  using assms
  by (auto simp add: evaluate_on_one_task_def Let_def split: sum.splits)

theorem evaluate_on_one_task_labels_unchanged_witness:
  "evaluate_on_one_task sign_classifier 0 [- 2, 3] [0, 1] [- 1, 1] [0, 0]
     = Inr ((1, 2, [0, 1], [0, 0]), 2)
   \<and> [0, 0] = [0, 0 :: int]"
  using evaluate_on_one_task_labels_unchanged
    [of sign_classifier 0 "[- 2, 3]" "[0, 1]" "[- 1, 1]" "[0, 0]" 1 2 "[0, 1]" "[0, 0]" 2]
    episode_two_task [of 0]
  by simp

section \<open>Properties of the episodic evaluation driver\<close>

lemma evaluate_loop_step:
  assumes "evaluate_loop model st agg (ep # rest) = Inr (st2, agg2)"
  obtains r st1 where
    "evaluate_on_one_task model st
       (support_images ep) (support_labels ep) (query_images ep) (query_labels ep) = Inr (r, st1)"
    "0 < total_predictions agg + total_of r"
    "evaluate_loop model st1
       \<lparr>total_predictions = total_predictions agg + total_of r,
        correct_predictions = correct_predictions agg + correct_of r,
        predictions_all = predictions_all agg @ fst (snd (snd r)),
        query_labels_all = query_labels_all agg @ snd (snd (snd r))\<rparr> rest = Inr (st2, agg2)"
  using assms
  by (auto simp add: Let_def py_truediv_def correct_of_def total_of_def
      split: sum.splits prod.splits if_splits)

lemma evaluate_loop_invariant:
  assumes "counts_bounded model eps"
    and "correct_predictions agg \<le> total_predictions agg"
    and "evaluate_loop model st agg eps = Inr (st', agg')"
  shows "correct_predictions agg' \<le> total_predictions agg'"
  using assms
proof (induction eps arbitrary: st agg)
  case Nil
  then show ?case by simp
next
  case (Cons ep rest)
  from Cons.prems(3) obtain r st1 where
    task: "evaluate_on_one_task model st
       (support_images ep) (support_labels ep) (query_images ep) (query_labels ep) = Inr (r, st1)"
    and rest: "evaluate_loop model st1
       \<lparr>total_predictions = total_predictions agg + total_of r,
        correct_predictions = correct_predictions agg + correct_of r,
        predictions_all = predictions_all agg @ fst (snd (snd r)),
        query_labels_all = query_labels_all agg @ snd (snd (snd r))\<rparr> rest = Inr (st', agg')"
    by (rule evaluate_loop_step)
  from Cons.prems(1) task have "correct_of r \<le> total_of r"
    unfolding counts_bounded_def by (meson list.set_intros(1))
  moreover have "counts_bounded model rest"
    using Cons.prems(1) by (simp add: counts_bounded_def)
  ultimately show ?case
    using Cons.IH [OF _ _ rest] Cons.prems(2) by simp
qed

lemma counts_bounded_take: "counts_bounded model eps \<Longrightarrow> counts_bounded model (take k eps)"
  unfolding counts_bounded_def by (meson in_set_takeD)

text \<open>
  Claim C2. For a classifier whose per-episode correct count never exceeds the episode's
  query count, after each episode of a run of the driver is accumulated (the loop having
  run over the first \<open>k\<close> episodes, for every \<open>k\<close>), the running counter
  \<open>correct_predictions\<close> is at most \<open>total_predictions\<close>.
\<close>

theorem running_correct_le_total:
  assumes "counts_bounded model eps"
    and "k \<le> length eps"
    and "evaluate_loop model st running_init (take k eps) = Inr (st', agg)"
  shows "correct_predictions agg \<le> total_predictions agg"
  using evaluate_loop_invariant [OF counts_bounded_take [OF assms(1)] _ assms(3)]
  by (simp add: running_init_def)

lemma evaluate_loop_append:
  "evaluate_loop model st agg (xs @ ys) =
     (case evaluate_loop model st agg xs of
        Inl e \<Rightarrow> Inl e
      | Inr (st1, agg1) \<Rightarrow> evaluate_loop model st1 agg1 ys)"
  by (induction xs arbitrary: st agg) (auto simp add: Let_def split: sum.splits prod.splits)

lemma episode_ok_task:
  assumes "episode_ok model ep"
  obtains r where
    "evaluate_on_one_task model st
       (support_images ep) (support_labels ep) (query_images ep) (query_labels ep)
     = Inr (r, process_support_set model st (support_images ep) (support_labels ep))"
    "total_of r = length (query_labels ep)"
    "correct_of r \<le> total_of r"
    "length (fst (snd (snd r))) = length (snd (snd (snd r)))"
    "length (snd (snd (snd r))) = total_of r"
proof -
  from assms obtain c where c: "0 < c"
    "score_shape (forward model (process_support_set model st (support_images ep) (support_labels ep))
        (query_images ep)) (length (query_labels ep)) c"
    unfolding episode_ok_def by blast
  let ?M = "forward model (process_support_set model st (support_images ep) (support_labels ep))
        (query_images ep)"
  let ?p = "map (\<lambda>r. int (argmax r)) (trows ?M)"
  let ?r = "(length (filter (\<lambda>h. h) (map2 (\<lambda>x y. x = y) ?p (query_labels ep))),
             length (query_labels ep), ?p, query_labels ep)"
  have len: "length ?p = length (query_labels ep)" using c(2) by (simp add: score_shape_def)
  have "length (filter (\<lambda>h. h) (map2 (\<lambda>x y. x = y) ?p (query_labels ep)))
        \<le> length (map2 (\<lambda>x y. x = y) ?p (query_labels ep))"
    by (rule length_filter_le)
  then have le: "correct_of ?r \<le> total_of ?r"
    using len by (simp add: correct_of_def total_of_def)
  show thesis
    by (rule that [of ?r]) (use evaluate_on_one_task_shaped [OF c(2,1)] le len in
      \<open>simp_all add: total_of_def correct_of_def\<close>)
qed

lemma episode_ok_counts_bounded:
  assumes "\<forall>ep \<in> set eps. episode_ok model ep"
  shows "counts_bounded model eps"
  unfolding counts_bounded_def
proof (intro ballI allI impI)
  fix ep st r st'
  assume "ep \<in> set eps"
    and eq: "evaluate_on_one_task model st
          (support_images ep) (support_labels ep) (query_images ep) (query_labels ep) = Inr (r, st')"
  then have "episode_ok model ep" using assms by blast
  then obtain r0 where "evaluate_on_one_task model st
       (support_images ep) (support_labels ep) (query_images ep) (query_labels ep)
     = Inr (r0, process_support_set model st (support_images ep) (support_labels ep))"
    "correct_of r0 \<le> total_of r0"
    by (rule episode_ok_task)
  with eq show "correct_of r \<le> total_of r" by simp
qed

lemma accumulate_Cons:
  "accumulate agg (r # rs) =
     accumulate \<lparr>total_predictions = total_predictions agg + total_of r,
        correct_predictions = correct_predictions agg + correct_of r,
        predictions_all = predictions_all agg @ fst (snd (snd r)),
        query_labels_all = query_labels_all agg @ snd (snd (snd r))\<rparr> rs"
  by (simp add: accumulate_def)

lemma evaluate_loop_results:
  assumes "\<forall>ep \<in> set eps. episode_ok model ep"
    and "0 < total_predictions agg \<or> eps = [] \<or> query_labels (hd eps) \<noteq> []"
  shows "\<exists>rs st'. task_results model st eps = Inr (rs, st')
           \<and> map total_of rs = map (\<lambda>ep. length (query_labels ep)) eps
           \<and> list_all (\<lambda>r. length (fst (snd (snd r))) = length (snd (snd (snd r)))) rs
           \<and> list_all (\<lambda>r. length (snd (snd (snd r))) = total_of r) rs
           \<and> evaluate_loop model st agg eps = Inr (st', accumulate agg rs)"
  using assms
proof (induction eps arbitrary: st agg)
  case Nil
  then show ?case by (simp add: accumulate_def)
next
  case (Cons ep rest)
  let ?st1 = "process_support_set model st (support_images ep) (support_labels ep)"
  have "episode_ok model ep" using Cons.prems(1) by simp
  then obtain r where r:
    "evaluate_on_one_task model st
       (support_images ep) (support_labels ep) (query_images ep) (query_labels ep) = Inr (r, ?st1)"
    "total_of r = length (query_labels ep)"
    "length (fst (snd (snd r))) = length (snd (snd (snd r)))"
    "length (snd (snd (snd r))) = total_of r"
    by (rule episode_ok_task)
  let ?agg1 = "\<lparr>total_predictions = total_predictions agg + total_of r,
        correct_predictions = correct_predictions agg + correct_of r,
        predictions_all = predictions_all agg @ fst (snd (snd r)),
        query_labels_all = query_labels_all agg @ snd (snd (snd r))\<rparr>"
  have pos: "0 < total_predictions ?agg1"
    using Cons.prems(2) r(2) by auto
  have "\<forall>ep \<in> set rest. episode_ok model ep" using Cons.prems(1) by simp
  from Cons.IH [OF this, of ?agg1 ?st1] pos
  obtain rs st' where rs: "task_results model ?st1 rest = Inr (rs, st')"
    "map total_of rs = map (\<lambda>ep. length (query_labels ep)) rest"
    "list_all (\<lambda>r. length (fst (snd (snd r))) = length (snd (snd (snd r)))) rs"
    "list_all (\<lambda>r. length (snd (snd (snd r))) = total_of r) rs"
    "evaluate_loop model ?st1 ?agg1 rest = Inr (st', accumulate ?agg1 rs)"
    by blast
  have step: "evaluate_loop model st agg (ep # rest) = evaluate_loop model ?st1 ?agg1 rest"
    using r(1) pos
    by (cases r) (auto simp add: Let_def py_truediv_def correct_of_def total_of_def)
  have "task_results model st (ep # rest) = Inr (r # rs, st')"
    using r(1) rs(1) by simp
  moreover have "map total_of (r # rs) = map (\<lambda>ep. length (query_labels ep)) (ep # rest)"
    using r(2) rs(2) by simp
  moreover have "list_all (\<lambda>r. length (fst (snd (snd r))) = length (snd (snd (snd r)))) (r # rs)"
    using r(3) rs(3) by simp
  moreover have "list_all (\<lambda>r. length (snd (snd (snd r))) = total_of r) (r # rs)"
    using r(4) rs(4) by simp
  moreover have "evaluate_loop model st agg (ep # rest) = Inr (st', accumulate agg (r # rs))"
    using step rs(5) by (simp add: accumulate_Cons)
  ultimately show ?case by blast
qed

lemma py_truediv_pos: "0 < b \<Longrightarrow> py_truediv a b = Inr (of_nat a / of_nat b)"
  by (simp add: py_truediv_def)

lemma concat_same_length:
  "list_all (\<lambda>r. length (f r) = length (g r)) rs \<Longrightarrow>
     length (concat (map f rs)) = length (concat (map g rs))"
  by (induction rs) auto

lemma concat_length_sum:
  "list_all (\<lambda>r. length (g r) = t r) rs \<Longrightarrow>
     length (concat (map g rs)) = sum_list (map t rs)"
  by (induction rs) auto

lemma f1_score_returns:
  assumes "length y_true = length y_pred" and "y_true \<noteq> []"
  shows "f1_score sklearn y_true y_pred =
           Inr (map (class_f1 y_true y_pred) (sort (remdups (y_true @ y_pred))))"
  using assms by (simp add: f1_score_def)

lemma error_metrics_return:
  assumes "length y_true = length y_pred"
  shows "\<exists>mse. mean_squared_error (np_array y_true) (np_array y_pred) = Inr mse"
    and "\<exists>mae. mean_absolute_error (np_array y_true) (np_array y_pred) = Inr mae"
  using assms
  by (simp_all add: mean_squared_error_def mean_absolute_error_def np_array_def broadcast2_def)

text \<open>
  Claim C1, amended. For every non-empty sequence of episodes whose first episode has a
  non-empty query set, with a classifier that meets its shape contract on every episode,
  \<open>evaluate\<close> returns (with either release of scikit-learn)
  \<open>correct_predictions / total_predictions\<close>, where
  \<open>total_predictions\<close> is the sum of the query-set sizes of the episodes and
  \<open>correct_predictions\<close> the sum of the correct counts the single-task evaluator
  returns, episode by episode.
\<close>

theorem evaluate_accuracy:
  assumes "eps \<noteq> []"
    and "query_labels (hd eps) \<noteq> []"
    and "\<forall>ep \<in> set eps. episode_ok model ep"
  shows "\<exists>rs st'.
           task_results model (model_eval model st) eps = Inr (rs, st')
         \<and> map total_of rs = map (\<lambda>ep. length (query_labels ep)) eps
         \<and> 0 < sum_list (map total_of rs)
         \<and> evaluate sklearn model st eps =
             Inr (of_nat (sum_list (map correct_of rs)) / of_nat (sum_list (map total_of rs)), st')"
proof -
  from evaluate_loop_results [OF assms(3), of running_init "model_eval model st"] assms(2)
  obtain rs st' where rs: "task_results model (model_eval model st) eps = Inr (rs, st')"
    "map total_of rs = map (\<lambda>ep. length (query_labels ep)) eps"
    "list_all (\<lambda>r. length (fst (snd (snd r))) = length (snd (snd (snd r)))) rs"
    "list_all (\<lambda>r. length (snd (snd (snd r))) = total_of r) rs"
    "evaluate_loop model (model_eval model st) running_init eps = Inr (st', accumulate running_init rs)"
    by blast
  have "0 < length (query_labels (hd eps))" using assms(2) by simp
  also have "length (query_labels (hd eps)) \<le> sum_list (map (\<lambda>ep. length (query_labels ep)) eps)"
    using assms(1) by (cases eps) auto
  finally have pos: "0 < sum_list (map total_of rs)" using rs(2) by simp
  have len: "length (query_labels_all (accumulate running_init rs))
             = length (predictions_all (accumulate running_init rs))"
    using concat_same_length [OF rs(3)] by (simp add: accumulate_def running_init_def)
  have div: "py_truediv (sum_list (map correct_of rs)) (sum_list (map total_of rs)) =
      Inr (of_nat (sum_list (map correct_of rs)) / of_nat (sum_list (map total_of rs)))"
    using pos by (rule py_truediv_pos)
  have lq: "length (query_labels_all (accumulate running_init rs)) = sum_list (map total_of rs)"
    using concat_length_sum [OF rs(4)] by (simp add: accumulate_def running_init_def)
  have "0 < length (query_labels_all (accumulate running_init rs))"
    unfolding lq by (rule pos)
  then have ne: "query_labels_all (accumulate running_init rs) \<noteq> []"
    by (rule length_greater_0_conv [THEN iffD1])
  obtain f1 where f1: "f1_score sklearn (query_labels_all (accumulate running_init rs))
      (predictions_all (accumulate running_init rs)) = Inr f1"
    using f1_score_returns [OF len ne] by blast
  obtain mse where mse: "mean_squared_error (np_array (query_labels_all (accumulate running_init rs)))
      (np_array (predictions_all (accumulate running_init rs))) = Inr mse"
    using error_metrics_return(1) [OF len] by blast
  obtain mae where mae: "mean_absolute_error (np_array (query_labels_all (accumulate running_init rs)))
      (np_array (predictions_all (accumulate running_init rs))) = Inr mae"
    using error_metrics_return(2) [OF len] by blast
  have tot: "total_predictions (accumulate running_init rs) = sum_list (map total_of rs)"
    and cor: "correct_predictions (accumulate running_init rs) = sum_list (map correct_of rs)"
    by (simp_all add: accumulate_def running_init_def)
  have "evaluate sklearn model st eps =
      Inr (of_nat (sum_list (map correct_of rs)) / of_nat (sum_list (map total_of rs)), st')"
    by (simp add: evaluate_def rs(5) f1 mse mae tot cor div)
  with rs(1,2) pos show ?thesis by blast
qed

lemma evaluate_loop_total_mono:
  assumes "evaluate_loop model st agg eps = Inr (st', agg')"
  shows "total_predictions agg \<le> total_predictions agg'"
  using assms
proof (induction eps arbitrary: st agg)
  case Nil
  then show ?case by simp
next
  case (Cons ep rest)
  from Cons.prems obtain r st1 where
    "evaluate_loop model st1
       \<lparr>total_predictions = total_predictions agg + total_of r,
        correct_predictions = correct_predictions agg + correct_of r,
        predictions_all = predictions_all agg @ fst (snd (snd r)),
        query_labels_all = query_labels_all agg @ snd (snd (snd r))\<rparr> rest = Inr (st', agg')"
    by (rule evaluate_loop_step)
  from Cons.IH [OF this] show ?case by simp
qed

lemma evaluate_loop_total_pos:
  assumes "evaluate_loop model st agg eps = Inr (st', agg')" and "eps \<noteq> []"
  shows "0 < total_predictions agg'"
proof -
  from assms(2) obtain ep rest where eps: "eps = ep # rest" by (cases eps) auto
  from assms(1) [unfolded eps] obtain r st1 where
    pos: "0 < total_predictions agg + total_of r"
    and rest: "evaluate_loop model st1
       \<lparr>total_predictions = total_predictions agg + total_of r,
        correct_predictions = correct_predictions agg + correct_of r,
        predictions_all = predictions_all agg @ fst (snd (snd r)),
        query_labels_all = query_labels_all agg @ snd (snd (snd r))\<rparr> rest = Inr (st', agg')"
    by (rule evaluate_loop_step)
  from evaluate_loop_total_mono [OF rest] pos show ?thesis by (simp del: add_gr_0)
qed

lemma evaluate_Nil:
  "evaluate sklearn model st [] =
     (case sklearn of
        EmptyAccepted \<Rightarrow> Inl ZeroDivisionError
      | EmptyRefused \<Rightarrow>
          Inl (ValueError ''Found empty input array while a minimum of 1 sample is required''))"
  by (cases sklearn)
    (simp_all add: evaluate_def running_init_def f1_score_def mean_squared_error_def
      mean_absolute_error_def np_array_def broadcast2_def py_truediv_def)

lemma evaluate_on_one_task_total:
  assumes "evaluate_on_one_task model st si sl qi ql = Inr (r, st')"
  shows "total_of r = length ql"
  using assms
  by (auto simp add: evaluate_on_one_task_def Let_def total_of_def split: sum.splits)

lemma evaluate_loop_first_query_empty:
  assumes "query_labels ep = []"
  shows "\<exists>e. evaluate_loop model st running_init (ep # rest) = Inl e"
proof (cases "evaluate_on_one_task model st
          (support_images ep) (support_labels ep) (query_images ep) (query_labels ep)")
  case (Inl e)
  then show ?thesis by simp
next
  case (Inr p)
  obtain r st1 where p: "p = (r, st1)" by (cases p)
  from Inr p assms have "total_of r = 0"
    using evaluate_on_one_task_total [of model st _ _ _ "query_labels ep" r st1] by simp
  then show ?thesis
    using Inr p
    by (cases r) (simp add: Let_def py_truediv_def running_init_def total_of_def)
qed

text \<open>
  Claim C7, amended. When the total number of predictions at the end of the loop is zero
  (only the run over no episode ends so), \<open>evaluate\<close> fails instead of returning a
  value, and no explicit error of the source guards it: where scikit-learn accepts empty
  arrays the failure is the \<open>ZeroDivisionError\<close> of the final division, and where it
  refuses them it is the \<open>ValueError\<close> that \<open>f1_score\<close> raises before that division.
  More generally, when the query-set sizes sum to zero \<open>evaluate\<close> returns no value.
\<close>

theorem evaluate_zero_total:
  "evaluate EmptyAccepted model st [] = Inl ZeroDivisionError
   \<and> evaluate EmptyRefused model st [] =
        Inl (ValueError ''Found empty input array while a minimum of 1 sample is required'')
   \<and> (\<forall>st' agg.
        evaluate_loop model (model_eval model st) running_init eps = Inr (st', agg)
        \<and> total_predictions agg = 0
        \<longrightarrow> eps = []
          \<and> evaluate sklearn model st eps =
              (case sklearn of
                 EmptyAccepted \<Rightarrow> Inl ZeroDivisionError
               | EmptyRefused \<Rightarrow>
                   Inl (ValueError ''Found empty input array while a minimum of 1 sample is required'')))
   \<and> (sum_list (map (\<lambda>ep. length (query_labels ep)) eps) = 0
        \<longrightarrow> (\<exists>e. evaluate sklearn model st eps = Inl e))"
proof (intro conjI allI impI)
  show "evaluate EmptyAccepted model st [] = Inl ZeroDivisionError"
    by (simp add: evaluate_Nil)
  show "evaluate EmptyRefused model st [] =
        Inl (ValueError ''Found empty input array while a minimum of 1 sample is required'')"
    by (simp add: evaluate_Nil)
next
  fix st' agg
  assume a: "evaluate_loop model (model_eval model st) running_init eps = Inr (st', agg)
        \<and> total_predictions agg = 0"
  then show "eps = []"
    using evaluate_loop_total_pos [of model _ running_init eps st' agg] by auto
  then show "evaluate sklearn model st eps =
              (case sklearn of
                 EmptyAccepted \<Rightarrow> Inl ZeroDivisionError
               | EmptyRefused \<Rightarrow>
                   Inl (ValueError ''Found empty input array while a minimum of 1 sample is required''))"
    by (simp add: evaluate_Nil)
next
  assume z: "sum_list (map (\<lambda>ep. length (query_labels ep)) eps) = 0"
  show "\<exists>e. evaluate sklearn model st eps = Inl e"
  proof (cases eps)
    case Nil
    then show ?thesis by (cases sklearn) (simp_all add: evaluate_Nil)
  next
    case (Cons ep rest)
    with z have "query_labels ep = []" by simp
    from evaluate_loop_first_query_empty [OF this, of model "model_eval model st" rest]
    show ?thesis using Cons by (auto simp add: evaluate_def)
  qed
qed

lemma sign_classifier_episode_ok:
  "length (query_images ep) = length (query_labels ep) \<Longrightarrow> episode_ok sign_classifier ep"
  unfolding episode_ok_def
  by (intro allI exI [of _ 2]) (simp add: sign_classifier_def score_shape_def list_all_iff)

lemma sign_classifier_eval: "model_eval sign_classifier st = st"
  by (simp add: sign_classifier_def)

lemma episode_no_query_task:
  "evaluate_on_one_task sign_classifier st [- 2, 3] [0, 1] [] []
     = Inr ((0, 0, [], []), st + 2)"
  by (simp add: evaluate_on_one_task_def Let_def sign_classifier_def torch_max_dim1_indices_def
      torch_eq_def broadcast2_def)

lemma evaluate_loop_two:
  "evaluate_loop sign_classifier 0 running_init [episode_two] =
     Inr (2, \<lparr>total_predictions = 2, correct_predictions = 1,
              predictions_all = [0, 1], query_labels_all = [0, 0]\<rparr>)"
  by (simp add: episode_two_def episode_two_task running_init_def py_truediv_def)

lemma evaluate_loop_two_two:
  "evaluate_loop sign_classifier 0 running_init [episode_two, episode_two] =
     Inr (4, \<lparr>total_predictions = 4, correct_predictions = 2,
              predictions_all = [0, 1, 0, 1], query_labels_all = [0, 0, 0, 0]\<rparr>)"
  by (simp add: episode_two_def episode_two_task running_init_def py_truediv_def)

lemma evaluate_two: "evaluate sklearn sign_classifier 0 [episode_two] = Inr (1 / 2, 2)"
  by (simp add: evaluate_def evaluate_loop_two sign_classifier_eval f1_score_def
      mean_squared_error_def mean_absolute_error_def np_array_def broadcast2_def py_truediv_def
      del: evaluate_loop.simps)

theorem evaluate_accuracy_witness:
  "[episode_two] \<noteq> []
   \<and> query_labels (hd [episode_two]) \<noteq> []
   \<and> list_all (episode_ok sign_classifier) [episode_two]
   \<and> task_results sign_classifier (model_eval sign_classifier 0) [episode_two]
        = Inr ([(1, 2, [0, 1], [0, 0])], 2)
   \<and> evaluate EmptyRefused sign_classifier 0 [episode_two] = Inr (1 / 2, 2)
   \<and> evaluate EmptyAccepted sign_classifier 0 [episode_two] = Inr (1 / 2, 2)"
  using evaluate_accuracy [where eps = "[episode_two]" and model = sign_classifier and st = 0
      and sklearn = EmptyRefused]
    sign_classifier_episode_ok [of episode_two] evaluate_two
  by (simp add: episode_two_def episode_two_task sign_classifier_eval)

text \<open>
  Claim C1 as stated fails: a non-empty sequence of episodes on which \<open>evaluate\<close> returns no accuracy: the first
  episode has an empty query set, so the running total is still 0 when the loop divides
  by it for the progress display, although the second episode has two queries.
\<close>

theorem evaluate_first_query_empty_counterexample:
  "[episode_no_query, episode_two] \<noteq> []
   \<and> evaluate EmptyRefused sign_classifier 0 [episode_no_query, episode_two]
        = Inl ZeroDivisionError
   \<and> evaluate EmptyAccepted sign_classifier 0 [episode_no_query, episode_two]
        = Inl ZeroDivisionError
   \<and> length (query_labels episode_no_query) + length (query_labels episode_two) = 2
   \<and> evaluate_on_one_task sign_classifier 0 [- 2, 3] [0, 1] [] [] = Inr ((0, 0, [], []), 2)
   \<and> evaluate_on_one_task sign_classifier 2 [- 2, 3] [0, 1] [- 1, 1] [0, 0]
        = Inr ((1, 2, [0, 1], [0, 0]), 4)"
  by (simp add: evaluate_def episode_no_query_def episode_two_def episode_no_query_task
      episode_two_task running_init_def py_truediv_def sign_classifier_eval)

theorem running_correct_le_total_witness:
  "counts_bounded sign_classifier [episode_two, episode_two]
   \<and> (1 :: nat) \<le> length [episode_two, episode_two]
   \<and> evaluate_loop sign_classifier 0 running_init (take 1 [episode_two, episode_two]) =
       Inr (2, \<lparr>total_predictions = 2, correct_predictions = 1,
                predictions_all = [0, 1], query_labels_all = [0, 0]\<rparr>)
   \<and> correct_predictions \<lparr>total_predictions = 2, correct_predictions = 1,
                predictions_all = [0, 1], query_labels_all = [0, 0]\<rparr>
       \<le> total_predictions \<lparr>total_predictions = 2, correct_predictions = 1,
                predictions_all = [0, 1], query_labels_all = [0, 0]\<rparr>"
proof -
  have ok: "\<forall>ep \<in> set [episode_two, episode_two]. episode_ok sign_classifier ep"
    by (simp add: sign_classifier_episode_ok episode_two_def)
  have cb: "counts_bounded sign_classifier [episode_two, episode_two]"
    using ok by (rule episode_ok_counts_bounded)
  have run: "evaluate_loop sign_classifier 0 running_init (take 1 [episode_two, episode_two]) =
       Inr (2, \<lparr>total_predictions = 2, correct_predictions = 1,
                predictions_all = [0, 1], query_labels_all = [0, 0]\<rparr>)"
    using evaluate_loop_two by simp
  have k: "(1 :: nat) \<le> length [episode_two, episode_two]" by simp
  from running_correct_le_total [OF cb k run] cb k run show ?thesis by blast
qed

theorem evaluate_zero_total_witness:
  "evaluate EmptyAccepted sign_classifier 0 [] = Inl ZeroDivisionError
   \<and> evaluate_loop sign_classifier (model_eval sign_classifier 0) running_init [] = Inr (0, running_init)
   \<and> total_predictions running_init = 0
   \<and> length (query_labels episode_no_query) = 0
   \<and> evaluate EmptyAccepted sign_classifier 0 [episode_no_query] = Inl ZeroDivisionError
   \<and> evaluate EmptyRefused sign_classifier 0 [episode_no_query] = Inl ZeroDivisionError"
  using evaluate_zero_total [of sign_classifier 0 "[]" EmptyAccepted]
    evaluate_zero_total [of sign_classifier 0 "[episode_no_query]" EmptyRefused]
  by (simp add: evaluate_def episode_no_query_def episode_no_query_task
      running_init_def py_truediv_def sign_classifier_eval)

text \<open>
  Claim C7 as stated fails: with a scikit-learn that refuses empty arrays, the run over
  no episode ends with a total of 0 and \<open>evaluate\<close> fails with the \<open>ValueError\<close> of
  \<open>f1_score\<close>, not with a division by zero.
\<close>

theorem evaluate_zero_total_counterexample:
  "evaluate_loop sign_classifier (model_eval sign_classifier 0) running_init [] = Inr (0, running_init)
   \<and> total_predictions running_init = 0
   \<and> f1_score EmptyRefused [] [] =
        Inl (ValueError ''Found empty input array while a minimum of 1 sample is required'')
   \<and> evaluate EmptyRefused sign_classifier 0 [] =
        Inl (ValueError ''Found empty input array while a minimum of 1 sample is required'')
   \<and> evaluate EmptyRefused sign_classifier 0 [] \<noteq> Inl ZeroDivisionError"
  by (simp add: evaluate_def f1_score_def running_init_def sign_classifier_eval)


section \<open>Properties of the embedding predictor\<close>

lemma predict_loop_collects:
  "predict_loop model bs embs names =
     (embs @ map (\<lambda>b. model (fst b)) bs, names @ concat (map (\<lambda>b. class_names_list (snd b)) bs))"
  by (induction bs arbitrary: embs names) auto

lemma torch_cat_same_ncols:
  assumes "ts \<noteq> []" and "\<forall>t \<in> set ts. ncols t = d"
  shows "torch_cat ts = Inr \<lparr>ncols = d, trows = concat (map trows ts)\<rparr>"
proof -
  have "hd ts \<in> set ts" using assms(1) by simp
  then have "ncols (hd ts) = d" using assms(2) by blast
  then show ?thesis using assms by (simp add: torch_cat_def list_all_iff)
qed

lemma batch_rows_length:
  "batch_ok model d b \<Longrightarrow> length (batch_rows model b) = length (fst b)"
  by (simp add: batch_ok_def batch_rows_def score_shape_def)

lemma DataFrame_batches:
  assumes "\<forall>b \<in> set bs. batch_ok model d b"
  shows "DataFrame (concat (map (\<lambda>b. trows (model (fst b))) bs))
           (concat (map (\<lambda>b. class_names_list (snd b)) bs))
         = Inr (concat (map (batch_rows model) bs))"
  using assms
proof (induction bs)
  case Nil
  then show ?case by (simp add: DataFrame_def)
next
  case (Cons b bs)
  then have b: "length (trows (model (fst b))) = length (class_names_list (snd b))"
    by (simp add: batch_ok_def score_shape_def)
  from Cons have rest: "DataFrame (concat (map (\<lambda>b. trows (model (fst b))) bs))
           (concat (map (\<lambda>b. class_names_list (snd b)) bs))
         = Inr (concat (map (batch_rows model) bs))" by simp
  then have len: "length (concat (map (\<lambda>b. trows (model (fst b))) bs))
      = length (concat (map (\<lambda>b. class_names_list (snd b)) bs))"
    by (auto simp add: DataFrame_def split: if_splits)
  with rest have zip: "map2 (\<lambda>e c. \<lparr>embedding = e, class_name = c\<rparr>)
        (concat (map (\<lambda>b. trows (model (fst b))) bs))
        (concat (map (\<lambda>b. class_names_list (snd b)) bs))
      = concat (map (batch_rows model) bs)"
    by (simp add: DataFrame_def)
  show ?case using b len zip by (simp add: DataFrame_def batch_rows_def [of model b])
qed

text \<open>
  Claim C8, amended. For every data source yielding a non-empty finite sequence of
  batches and every feature extractor that returns one \<open>d\<close>-dimensional row per input
  (each batch carrying one label per input, as a tensor or as a plain sequence),
  \<open>predict_embeddings\<close> returns a table with exactly one row per input element, the sum
  of the batch sizes, in the order of the batches; each row holds that element's
  embedding, of dimension \<open>d\<close>, and its label.
\<close>

theorem predict_embeddings_table:
  assumes "dataloader \<noteq> []"
    and "\<forall>b \<in> set dataloader. batch_ok model d b"
  shows "predict_embeddings dataloader model = Inr (concat (map (batch_rows model) dataloader))
       \<and> length (concat (map (batch_rows model) dataloader))
           = sum_list (map (\<lambda>b. length (fst b)) dataloader)
       \<and> (\<forall>row \<in> set (concat (map (batch_rows model) dataloader)). length (embedding row) = d)
       \<and> (\<forall>b \<in> set dataloader. \<forall>j < length (fst b).
             batch_rows model b ! j =
               \<lparr>embedding = trows (model (fst b)) ! j,
                class_name = class_names_list (snd b) ! j\<rparr>)"
proof (intro conjI ballI allI impI)
  have "map (\<lambda>b. model (fst b)) dataloader \<noteq> []" using assms(1) by simp
  moreover have "\<forall>t \<in> set (map (\<lambda>b. model (fst b)) dataloader). ncols t = d"
    using assms(2) by (auto simp add: batch_ok_def score_shape_def)
  ultimately have "torch_cat (map (\<lambda>b. model (fst b)) dataloader) =
      Inr \<lparr>ncols = d, trows = concat (map trows (map (\<lambda>b. model (fst b)) dataloader))\<rparr>"
    by (rule torch_cat_same_ncols)
  then show "predict_embeddings dataloader model = Inr (concat (map (batch_rows model) dataloader))"
    using DataFrame_batches [OF assms(2)]
    by (simp add: predict_embeddings_def predict_loop_collects comp_def)
next
  have "map (\<lambda>b. length (batch_rows model b)) dataloader = map (\<lambda>b. length (fst b)) dataloader"
    using assms(2) by (auto simp add: batch_rows_length)
  then have "sum_list (map (\<lambda>b. length (batch_rows model b)) dataloader)
      = sum_list (map (\<lambda>b. length (fst b)) dataloader)"
    by (rule arg_cong)
  then show "length (concat (map (batch_rows model) dataloader))
           = sum_list (map (\<lambda>b. length (fst b)) dataloader)"
    by (simp add: length_concat comp_def)
next
  fix row
  assume "row \<in> set (concat (map (batch_rows model) dataloader))"
  then obtain b where b: "b \<in> set dataloader" "row \<in> set (batch_rows model b)" by auto
  then have "embedding row \<in> set (trows (model (fst b)))"
    by (auto simp add: batch_rows_def dest: set_zip_leftD)
  moreover have "list_all (\<lambda>r. length r = d) (trows (model (fst b)))"
    using assms(2) b(1) by (simp add: batch_ok_def score_shape_def)
  ultimately show "length (embedding row) = d" by (simp add: list_all_iff)
next
  fix b j
  assume "b \<in> set dataloader" and "j < length (fst b)"
  then show "batch_rows model b ! j =
               \<lparr>embedding = trows (model (fst b)) ! j,
                class_name = class_names_list (snd b) ! j\<rparr>"
    using assms(2) by (simp add: batch_rows_def batch_ok_def score_shape_def)
qed

lemma three_batches_table:
  "predict_embeddings three_batches linear_extractor =
     Inr [\<lparr>embedding = [1, 2, 0, 1], class_name = PyInt 0\<rparr>,
          \<lparr>embedding = [2, 4, 0, 1], class_name = PyInt 1\<rparr>,
          \<lparr>embedding = [3, 6, 0, 1], class_name = PyStr ''cat''\<rparr>,
          \<lparr>embedding = [4, 8, 0, 1], class_name = PyStr ''dog''\<rparr>,
          \<lparr>embedding = [5, 10, 0, 1], class_name = PyStr ''cat''\<rparr>,
          \<lparr>embedding = [6, 12, 0, 1], class_name = PyInt 2\<rparr>]"
  by (simp add: predict_embeddings_def three_batches_def linear_extractor_def torch_cat_def
      DataFrame_def)

lemma three_batches_ok: "list_all (batch_ok linear_extractor 4) three_batches"
  by (simp add: three_batches_def batch_ok_def linear_extractor_def score_shape_def)

text \<open>
  The scenario of the specification: three batches of sizes 2, 3 and 1 and a
  4-dimensional extractor give a table of 6 rows with 4-dimensional embeddings, the
  labels of two batches arriving as tensors and of one as a plain sequence.
\<close>

theorem predict_embeddings_table_witness:
  "three_batches \<noteq> []
   \<and> list_all (batch_ok linear_extractor 4) three_batches
   \<and> map (\<lambda>b. length (fst b)) three_batches = [2, 3, 1]
   \<and> predict_embeddings three_batches linear_extractor =
       Inr [\<lparr>embedding = [1, 2, 0, 1], class_name = PyInt 0\<rparr>,
            \<lparr>embedding = [2, 4, 0, 1], class_name = PyInt 1\<rparr>,
            \<lparr>embedding = [3, 6, 0, 1], class_name = PyStr ''cat''\<rparr>,
            \<lparr>embedding = [4, 8, 0, 1], class_name = PyStr ''dog''\<rparr>,
            \<lparr>embedding = [5, 10, 0, 1], class_name = PyStr ''cat''\<rparr>,
            \<lparr>embedding = [6, 12, 0, 1], class_name = PyInt 2\<rparr>]
   \<and> length (concat (map (batch_rows linear_extractor) three_batches)) = 6
   \<and> list_all (\<lambda>row. length (embedding row) = 4)
        (concat (map (batch_rows linear_extractor) three_batches))"
proof -
  have ne: "three_batches \<noteq> []" by (simp add: three_batches_def)
  have ok: "\<forall>b \<in> set three_batches. batch_ok linear_extractor 4 b"
    using three_batches_ok by (simp add: list_all_iff)
  have sizes: "map (\<lambda>b. length (fst b)) three_batches = [2, 3, 1]"
    by (simp add: three_batches_def)
  from predict_embeddings_table [OF ne ok] sizes
  have "length (concat (map (batch_rows linear_extractor) three_batches)) = 6"
    and "list_all (\<lambda>row. length (embedding row) = 4)
        (concat (map (batch_rows linear_extractor) three_batches))"
    by (simp_all add: list_all_iff)
  with ne three_batches_ok sizes three_batches_table show ?thesis by blast
qed

text \<open>
  Claim C8 as stated fails: on a data source that yields no batch, \<open>torch.cat\<close> is
  given an empty list and raises, so no table (not even an empty one) is returned.
\<close>

theorem predict_embeddings_no_batch_counterexample:
  "predict_embeddings [] linear_extractor =
     Inl (RuntimeError ''torch.cat(): expected a non-empty list of Tensors'')"
  by (simp add: predict_embeddings_def torch_cat_def)

end
